theory Spec2Isabelle
  imports Main "HOL-Library.AList" "HOL-Library.Char_ord" "HOL-Library.List_Lexorder"
begin

section \<open>JavaScript values\<close>

text \<open>
  The resolvers pass JSON documents around untyped (\<^verbatim>\<open>any\<close>), test them for
  truthiness and read properties that may be missing. Values are therefore modelled as
  they are at run time. An object is an association list in insertion order; reading a
  property takes the first binding of the key, and writing one (an object literal, a
  spread) replaces the binding in place or appends it, which is \<open>AList.update\<close>.
  Numbers are integers here: the code under study only copies numbers and tests them
  against zero.
\<close>

datatype jsval =
    JUndefined
  | JNull
  | JBool bool
  | JNum int
  | JStr string
  | JArr "jsval list"
  | JObj "(string \<times> jsval) list"

type_synonym obj = "(string \<times> jsval) list"

text \<open>\<^verbatim>\<open>if (v)\<close>, \<^verbatim>\<open>!v\<close>, \<^verbatim>\<open>v ? a : b\<close>: every value is truthy except
  \<^verbatim>\<open>undefined\<close>, \<^verbatim>\<open>null\<close>, \<^verbatim>\<open>false\<close>, \<^verbatim>\<open>0\<close> and the empty string.\<close>

fun truthy :: "jsval \<Rightarrow> bool" where
  "truthy JUndefined = False"
| "truthy JNull = False"
| "truthy (JBool b) = b"
| "truthy (JNum n) = (n \<noteq> 0)"
| "truthy (JStr s) = (s \<noteq> [])"
| "truthy (JArr xs) = True"
| "truthy (JObj kvs) = True"

text \<open>\<^verbatim>\<open>a || b\<close> is \<open>a\<close> when \<open>a\<close> is truthy and \<open>b\<close> otherwise.\<close>

definition js_or :: "jsval \<Rightarrow> jsval \<Rightarrow> jsval" where
  "js_or a b = (if truthy a then a else b)"

text \<open>\<^verbatim>\<open>o.k\<close> on an object: the value bound to \<open>k\<close>, or \<^verbatim>\<open>undefined\<close>.\<close>

definition field :: "obj \<Rightarrow> string \<Rightarrow> jsval" where
  "field kvs k = (case map_of kvs k of None \<Rightarrow> JUndefined | Some v \<Rightarrow> v)"

text \<open>\<^verbatim>\<open>v.k\<close> on a value that is known not to be \<^verbatim>\<open>undefined\<close> or \<^verbatim>\<open>null\<close>:
  primitives and arrays have none of the property names read by this code.\<close>

fun prop_of :: "jsval \<Rightarrow> string \<Rightarrow> jsval" where
  "prop_of (JObj kvs) k = field kvs k"
| "prop_of v k = JUndefined"

section \<open>Errors\<close>

text \<open>
  Every \<^verbatim>\<open>throw\<close> and every rejected promise is a value. The store's rejections keep the
  names the service gives them: \<open>ConditionalCheckFailedException\<close> is what a conditional
  put raises when the item exists (the specification's AlreadyExists), and
  \<open>ValidationException\<close> is raised for a request that does not fit the table's key schema
  or whose update paths overlap. \<open>Error m\<close> is \<^verbatim>\<open>new Error(m)\<close>.
\<close>

datatype error =
    ConditionalCheckFailedException
  | ValidationException
  | TypeError string
  | Error string

fun message :: "error \<Rightarrow> string" where
  "message ConditionalCheckFailedException = ''The conditional request failed''"
| "message ValidationException = ''The provided key element does not match the schema''"
| "message (TypeError m) = m"
| "message (Error m) = m"

section \<open>The key-value store\<close>

text \<open>
  A table holds at most one item per primary key. The stacks declare the key schemas:
  \<^verbatim>\<open>UserProfiles\<close> has the partition key \<^verbatim>\<open>userId\<close>; \<^verbatim>\<open>QuizResponses\<close> has
  \<^verbatim>\<open>userId\<close> with the sort key \<^verbatim>\<open>questionId\<close>; \<^verbatim>\<open>ExercisePlans\<close> and \<^verbatim>\<open>DietPlans\<close>
  have \<^verbatim>\<open>userId\<close> with the sort key \<^verbatim>\<open>planId\<close>; all key attributes are of type STRING.
  A table is an association list from keys to items, a put replaces the item under the
  key, and a query returns the items of one partition ordered by sort key. An item is
  stored as the object given: how the document client marshals attribute values is not
  part of the model.
\<close>

type_synonym 'k table = "('k \<times> obj) list"

record store =
  user_profiles :: "string table"
  quiz_responses :: "(string \<times> string) table"
  exercise_plans :: "(string \<times> string) table"
  diet_plans :: "(string \<times> string) table"

definition empty_store :: store where
  "empty_store = \<lparr>user_profiles = [], quiz_responses = [], exercise_plans = [], diet_plans = []\<rparr>"

definition str_attr :: "obj \<Rightarrow> string \<Rightarrow> string option" where
  "str_attr item a = (case field item a of JStr s \<Rightarrow> Some s | _ \<Rightarrow> None)"


definition composite_key :: "string \<Rightarrow> obj \<Rightarrow> (string \<times> string) option" where
  "composite_key sk item =
     (case str_attr item ''userId'' of
        None \<Rightarrow> None
      | Some u \<Rightarrow> (case str_attr item sk of None \<Rightarrow> None | Some r \<Rightarrow> Some (u, r)))"

text \<open>
  \<^verbatim>\<open>PutCommand\<close>. With \<open>must_be_new\<close> the put carries the condition
  \<^verbatim>\<open>attribute_not_exists(userId)\<close>, which holds exactly when no item is stored under the
  key, since every stored item has its key attributes.
\<close>

definition put_item ::
  "(obj \<Rightarrow> 'k option) \<Rightarrow> bool \<Rightarrow> 'k table \<Rightarrow> obj \<Rightarrow> error + 'k table" where
  "put_item key_of must_be_new t item =
     (case key_of item of
        None \<Rightarrow> Inl ValidationException
      | Some k \<Rightarrow>
          if must_be_new \<and> map_of t k \<noteq> None then Inl ConditionalCheckFailedException
          else Inr (AList.update k item t))"

text \<open>
  \<^verbatim>\<open>QueryCommand\<close> with the key condition \<^verbatim>\<open>userId = :userId\<close>: the items of the
  partition in ascending sort-key order, descending when \<^verbatim>\<open>ScanIndexForward\<close> is false,
  cut to \<^verbatim>\<open>Limit\<close> items when a limit is given. The size limit of a result page is
  not part of the model: a query without a limit returns the whole partition.
\<close>

definition query ::
  "(string \<times> string) table \<Rightarrow> string \<Rightarrow> bool \<Rightarrow> nat option \<Rightarrow> obj list" where
  "query t userId scan_forward limit =
     (let ascending = map snd (sort_key (\<lambda>kv. snd (fst kv)) (filter (\<lambda>kv. fst (fst kv) = userId) t));
          ordered = (if scan_forward then ascending else rev ascending)
      in case limit of None \<Rightarrow> ordered | Some n \<Rightarrow> take n ordered)"


section \<open>Profile and quiz resolvers\<close>








section \<open>Plan resolvers\<close>

text \<open>
  \<^verbatim>\<open>planId\<close> is optional: when it is truthy the resolver reads the one item under
  \<^verbatim>\<open>(userId, planId)\<close> and returns \<^verbatim>\<open>response.Item\<close> as it is; otherwise it queries the
  partition in descending sort-key order with limit 1 and returns
  \<^verbatim>\<open>response.Items?.[0] || null\<close>.
\<close>

definition getExercisePlan :: "string \<Rightarrow> jsval \<Rightarrow> store \<Rightarrow> error + jsval" where
  "getExercisePlan userId planId s =
     (if truthy planId then
        (case planId of
           JStr p \<Rightarrow>
             Inr (case map_of (exercise_plans s) (userId, p) of
                    None \<Rightarrow> JUndefined | Some item \<Rightarrow> JObj item)
         | _ \<Rightarrow> Inl ValidationException)
      else
        Inr (js_or (case query (exercise_plans s) userId False (Some 1) of
                      [] \<Rightarrow> JUndefined | item # _ \<Rightarrow> JObj item) JNull))"

definition getDietPlan :: "string \<Rightarrow> jsval \<Rightarrow> store \<Rightarrow> error + jsval" where
  "getDietPlan userId planId s =
     (if truthy planId then
        (case planId of
           JStr p \<Rightarrow>
             Inr (case map_of (diet_plans s) (userId, p) of
                    None \<Rightarrow> JUndefined | Some item \<Rightarrow> JObj item)
         | _ \<Rightarrow> Inl ValidationException)
      else
        Inr (js_or (case query (diet_plans s) userId False (Some 1) of
                      [] \<Rightarrow> JUndefined | item # _ \<Rightarrow> JObj item) JNull))"

definition saveExercisePlan :: "obj \<Rightarrow> store \<Rightarrow> error + store" where
  "saveExercisePlan plan s =
     (case put_item (composite_key ''planId'') False (exercise_plans s) plan of
        Inl e \<Rightarrow> Inl e
      | Inr t \<Rightarrow> Inr (s\<lparr>exercise_plans := t\<rparr>))"

definition saveDietPlan :: "obj \<Rightarrow> store \<Rightarrow> error + store" where
  "saveDietPlan plan s =
     (case put_item (composite_key ''planId'') False (diet_plans s) plan of
        Inl e \<Rightarrow> Inl e
      | Inr t \<Rightarrow> Inr (s\<lparr>diet_plans := t\<rparr>))"

section \<open>Extracting JSON from the model's reply\<close>

text \<open>
  \<^verbatim>\<open>JSON.parse\<close> is a built-in; it is a parameter \<open>JSON_parse\<close> that returns the parsed
  value or the error it throws.
\<close>

text \<open>The non-empty substrings of a text, by start position and then by length.\<close>

fun candidates :: "string \<Rightarrow> string list" where
  "candidates [] = []"
| "candidates (c # cs) = map (\<lambda>n. take n (c # cs)) [1..<Suc (Suc (length cs))] @ candidates cs"

definition is_json_object :: "error + jsval \<Rightarrow> bool" where
  "is_json_object r = (case r of Inr (JObj kvs) \<Rightarrow> True | _ \<Rightarrow> False)"

text \<open>
  Modelled from the spec: \<^verbatim>\<open>findValidJson\<close>, which \<^verbatim>\<open>extractJsonFromResponse\<close> calls and
  no source file defines. The specification has it "extract the first syntactically valid
  JSON object substring from the response text": the first substring, in the order of
  \<open>candidates\<close>, that \<open>JSON_parse\<close> accepts as an object, parsed; \<^verbatim>\<open>null\<close> when there
  is none.
\<close>

definition findValidJson :: "(string \<Rightarrow> error + jsval) \<Rightarrow> string \<Rightarrow> jsval" where
  "findValidJson JSON_parse response =
     (case List.find is_json_object (map JSON_parse (candidates response)) of
        Some (Inr json) \<Rightarrow> json
      | _ \<Rightarrow> JNull)"

text \<open>
  The \<^verbatim>\<open>try\<close> block returns the value found when it is truthy and throws otherwise; the
  \<^verbatim>\<open>catch\<close> block rethrows whatever was thrown under a new message.
\<close>

definition extractJsonFromResponse :: "(string \<Rightarrow> error + jsval) \<Rightarrow> string \<Rightarrow> error + jsval" where
  "extractJsonFromResponse JSON_parse response =
     (case (let json = findValidJson JSON_parse response
            in if truthy json then Inr json else Inl (Error ''No JSON found in response'')) of
        Inr json \<Rightarrow> Inr json
      | Inl e \<Rightarrow> Inl (Error (''Error extracting JSON from response: '' @ message e)))"

section \<open>Plan generation\<close>

datatype PlanType = EXERCISE | DIET | BOTH

record PlanGenerationInput =
  input_userId :: string
  input_planType :: PlanType
  input_preferences :: jsval

record UserData =
  data_profile :: obj
  data_quizResponses :: "obj list"

text \<open>
  The body of the model's reply after \<^verbatim>\<open>JSON.parse\<close>: an optional list of content blocks,
  each with an optional text.
\<close>

record content_block =
  block_text :: "string option"

record parsed_response =
  response_content :: "content_block list option"

text \<open>
  What a call of \<open>generateUserPlans\<close> reads from outside the store: the clock, the two
  identifiers \<^verbatim>\<open>uuidv4()\<close> returns, and for each of the two model invocations either the
  parsed body of the reply or the error thrown by the round trip. The prompt is a string
  rendered from the user data and the preferences; it goes nowhere but into the model
  invocation, whose outcome is arbitrary here.
\<close>

record generation_env =
  gen_timestamp :: string
  gen_exercise_uuid :: string
  gen_diet_uuid :: string
  gen_exercise_reply :: "error + parsed_response"
  gen_diet_reply :: "error + parsed_response"
  gen_JSON_parse :: "string \<Rightarrow> error + jsval"

definition collectUserData :: "string \<Rightarrow> store \<Rightarrow> error + UserData" where
  "collectUserData userId s =
     (case map_of (user_profiles s) userId of
        None \<Rightarrow> Inl (Error (''User profile not found for userId: '' @ userId))
      | Some profile \<Rightarrow>
          Inr \<lparr>data_profile = profile,
               data_quizResponses = query (quiz_responses s) userId True None\<rparr>)"

text \<open>\<^verbatim>\<open>parsedResponse.content?.[0]?.text || ""\<close>\<close>

definition invokeBedrockModel :: "error + parsed_response \<Rightarrow> error + string" where
  "invokeBedrockModel reply =
     (case reply of
        Inl e \<Rightarrow> Inl e
      | Inr parsedResponse \<Rightarrow>
          Inr (case response_content parsedResponse of
                 None \<Rightarrow> ''''
               | Some [] \<Rightarrow> ''''
               | Some (block # _) \<Rightarrow> (case block_text block of None \<Rightarrow> '''' | Some t \<Rightarrow> t)))"

definition generateExercisePlan :: "generation_env \<Rightarrow> UserData \<Rightarrow> jsval \<Rightarrow> error + jsval" where
  "generateExercisePlan env userData preferences =
     (case invokeBedrockModel (gen_exercise_reply env) of
        Inl e \<Rightarrow> Inl e
      | Inr response \<Rightarrow> extractJsonFromResponse (gen_JSON_parse env) response)"

definition generateDietPlan :: "generation_env \<Rightarrow> UserData \<Rightarrow> jsval \<Rightarrow> error + jsval" where
  "generateDietPlan env userData preferences =
     (case invokeBedrockModel (gen_diet_reply env) of
        Inl e \<Rightarrow> Inl e
      | Inr response \<Rightarrow> extractJsonFromResponse (gen_JSON_parse env) response)"

text \<open>
  \<^verbatim>\<open>{ ...v }\<close> copies the own enumerable properties of \<open>v\<close>: those of an object, the
  indices of an array or a string, none for the other values.
\<close>

fun decimal :: "nat \<Rightarrow> string" where
  "decimal n =
     (if n < 10 then [char_of (48 + n)] else decimal (n div 10) @ [char_of (48 + n mod 10)])"

declare decimal.simps [simp del]

fun own_properties :: "jsval \<Rightarrow> obj" where
  "own_properties (JObj kvs) = kvs"
| "own_properties (JArr xs) = zip (map decimal [0..<length xs]) xs"
| "own_properties (JStr cs) = zip (map decimal [0..<length cs]) (map (\<lambda>c. JStr [c]) cs)"
| "own_properties v = []"

definition spread :: "jsval \<Rightarrow> obj \<Rightarrow> obj" where
  "spread v target = fold (\<lambda>(k, x). AList.update k x) (own_properties v) target"

definition generateUserPlans ::
  "generation_env \<Rightarrow> PlanGenerationInput \<Rightarrow> store \<Rightarrow> (error + obj) \<times> store" where
  "generateUserPlans env input s =
     (case collectUserData (input_userId input) s of
        Inl e \<Rightarrow> (Inl e, s)
      | Inr userData \<Rightarrow>
          (case (if input_planType input = EXERCISE \<or> input_planType input = BOTH then
                   (case generateExercisePlan env userData (input_preferences input) of
                      Inl e \<Rightarrow> (Inl e, s)
                    | Inr exercisePlan \<Rightarrow>
                        (let exercisePlanItem =
                               AList.update ''updatedAt'' (JStr (gen_timestamp env))
                                (AList.update ''createdAt'' (JStr (gen_timestamp env))
                                  (AList.update ''exercises''
                                     (js_or (prop_of exercisePlan ''exercises'') (JArr []))
                                     (spread exercisePlan
                                        [(''planId'', JStr (gen_exercise_uuid env)),
                                         (''userId'', JStr (input_userId input))])))
                         in case saveExercisePlan exercisePlanItem s of
                              Inl e \<Rightarrow> (Inl e, s)
                            | Inr s' \<Rightarrow> (Inr [(''exercisePlan'', JObj exercisePlanItem)], s')))
                 else (Inr [], s)) of
             (Inl e, s1) \<Rightarrow> (Inl e, s1)
           | (Inr result, s1) \<Rightarrow>
               (if input_planType input = DIET \<or> input_planType input = BOTH then
                  (case generateDietPlan env userData (input_preferences input) of
                     Inl e \<Rightarrow> (Inl e, s1)
                   | Inr dietPlan \<Rightarrow>
                       (let dietPlanItem =
                              AList.update ''updatedAt'' (JStr (gen_timestamp env))
                               (AList.update ''createdAt'' (JStr (gen_timestamp env))
                                 (AList.update ''meals''
                                    (js_or (prop_of dietPlan ''meals'') (JArr []))
                                    (spread dietPlan
                                       [(''planId'', JStr (gen_diet_uuid env)),
                                        (''userId'', JStr (input_userId input))])))
                        in case saveDietPlan dietPlanItem s1 of
                             Inl e \<Rightarrow> (Inl e, s1)
                           | Inr s2 \<Rightarrow>
                               (Inr (AList.update ''dietPlan'' (JObj dietPlanItem) result), s2)))
                else (Inr result, s1))))"

section \<open>The event relay\<close>


text \<open>\<^verbatim>\<open>plan.userId || connectionId.split("-")[0]\<close>: the right operand is evaluated only
  when the left one is falsy, and throws unless \<^verbatim>\<open>connectionId\<close> is a string.\<close>

definition plan_userId :: "jsval \<Rightarrow> jsval \<Rightarrow> error + jsval" where
  "plan_userId plan connectionId =
     (if truthy (prop_of plan ''userId'') then Inr (prop_of plan ''userId'')
      else (case connectionId of
              JStr c \<Rightarrow> Inr (JStr (takeWhile (\<lambda>ch. ch \<noteq> CHR ''-'') c))
            | _ \<Rightarrow> Inl (TypeError ''connectionId.split is not a function'')))"

definition exercisePlanItem :: "string \<Rightarrow> string \<Rightarrow> jsval \<Rightarrow> jsval \<Rightarrow> error + obj" where
  "exercisePlanItem timestamp uuid plan connectionId =
     (case plan_userId plan connectionId of
        Inl e \<Rightarrow> Inl e
      | Inr userId \<Rightarrow>
          Inr [(''planId'', JStr uuid),
               (''userId'', userId),
               (''title'', js_or (prop_of plan ''title'') (JStr ''Custom Exercise Plan'')),
               (''description'',
                  js_or (prop_of plan ''description'') (JStr ''Generated with Bedrock prompt flows'')),
               (''exercises'', js_or (prop_of plan ''exercises'') (JArr [])),
               (''createdAt'', JStr timestamp),
               (''updatedAt'', JStr timestamp)])"

definition dietPlanItem :: "string \<Rightarrow> string \<Rightarrow> jsval \<Rightarrow> jsval \<Rightarrow> error + obj" where
  "dietPlanItem timestamp uuid plan connectionId =
     (case plan_userId plan connectionId of
        Inl e \<Rightarrow> Inl e
      | Inr userId \<Rightarrow>
          Inr [(''planId'', JStr uuid),
               (''userId'', userId),
               (''title'', js_or (prop_of plan ''title'') (JStr ''Custom Diet Plan'')),
               (''description'',
                  js_or (prop_of plan ''description'') (JStr ''Generated with Bedrock prompt flows'')),
               (''dailyCalories'', prop_of plan ''dailyCalories''),
               (''meals'', js_or (prop_of plan ''meals'') (JArr [])),
               (''dietaryRestrictions'', js_or (prop_of plan ''dietaryRestrictions'') (JArr [])),
               (''createdAt'', JStr timestamp),
               (''updatedAt'', JStr timestamp)])"

text \<open>
  The two blocks of the handler, "process exercise plan if present" and "process diet
  plan if present": each builds its item and puts it in its table when the payload is
  truthy, and does nothing otherwise.
\<close>

definition processExercisePlan ::
  "string \<Rightarrow> string \<Rightarrow> jsval \<Rightarrow> jsval \<Rightarrow> store \<Rightarrow> (error + unit) \<times> store" where
  "processExercisePlan timestamp uuid response connectionId s =
     (if truthy (prop_of response ''exercisePlan'') then
        (case exercisePlanItem timestamp uuid (prop_of response ''exercisePlan'') connectionId of
           Inl e \<Rightarrow> (Inl e, s)
         | Inr item \<Rightarrow>
             (case put_item (composite_key ''planId'') False (exercise_plans s) item of
                Inl e \<Rightarrow> (Inl e, s)
              | Inr t \<Rightarrow> (Inr (), s\<lparr>exercise_plans := t\<rparr>)))
      else (Inr (), s))"

definition processDietPlan ::
  "string \<Rightarrow> string \<Rightarrow> jsval \<Rightarrow> jsval \<Rightarrow> store \<Rightarrow> (error + unit) \<times> store" where
  "processDietPlan timestamp uuid response connectionId s =
     (if truthy (prop_of response ''dietPlan'') then
        (case dietPlanItem timestamp uuid (prop_of response ''dietPlan'') connectionId of
           Inl e \<Rightarrow> (Inl e, s)
         | Inr item \<Rightarrow>
             (case put_item (composite_key ''planId'') False (diet_plans s) item of
                Inl e \<Rightarrow> (Inl e, s)
              | Inr t \<Rightarrow> (Inr (), s\<lparr>diet_plans := t\<rparr>)))
      else (Inr (), s))"


section \<open>The flow-invocation handler\<close>

text \<open>
  \<^verbatim>\<open>functionHandler\<close> reads its configuration, parses the request body, invokes the
  flow, drains the response stream, publishes one event and answers. What it reads from
  outside is collected in \<open>flow_env\<close>: the parameter errors, the event bus name, the
  outcome of the flow invocation (the chunks of the response stream, if there is a stream)
  and of the publication, and the two built-ins \<^verbatim>\<open>JSON.stringify\<close> and \<^verbatim>\<open>JSON.parse\<close>.
\<close>

record flow_env =
  flow_paramErrors :: "string list"
  flow_eventBusName :: jsval
  flow_invoke :: "error + jsval list option"
  flow_put_events :: "error option"
  flow_JSON_stringify :: "jsval \<Rightarrow> string"
  flow_JSON_parse :: "string \<Rightarrow> error + jsval"

record proxy_result =
  statusCode :: nat
  headers :: "(string \<times> string) list"
  result_body :: string

record event_entry =
  EventBusName :: jsval
  Source :: string
  DetailType :: string
  Detail :: string

text \<open>\<^verbatim>\<open>v?.k\<close>\<close>

definition opt_prop :: "jsval \<Rightarrow> string \<Rightarrow> jsval" where
  "opt_prop v k = (if v = JUndefined \<or> v = JNull then JUndefined else prop_of v k)"

text \<open>\<^verbatim>\<open>chunk.flowOutputEvent?.content?.document\<close>\<close>

definition chunk_document :: "jsval \<Rightarrow> jsval" where
  "chunk_document chunk = opt_prop (opt_prop (prop_of chunk ''flowOutputEvent'') ''content'') ''document''"

text \<open>
  The loop over the response stream: \<^verbatim>\<open>result\<close> starts as the empty string and each
  chunk with a truthy document assigns the document's JSON text to it.
\<close>

definition drain_chunk :: "(jsval \<Rightarrow> string) \<Rightarrow> jsval \<Rightarrow> string \<Rightarrow> string" where
  "drain_chunk JSON_stringify chunk result =
     (if truthy (chunk_document chunk) then JSON_stringify (chunk_document chunk) else result)"

definition drain :: "(jsval \<Rightarrow> string) \<Rightarrow> jsval list option \<Rightarrow> string" where
  "drain JSON_stringify responseStream =
     (case responseStream of
        None \<Rightarrow> ''''
      | Some chunks \<Rightarrow> fold (drain_chunk JSON_stringify) chunks '''')"

text \<open>\<^verbatim>\<open>result ? JSON.parse(result) : {}\<close>\<close>

definition forwarded_response :: "(string \<Rightarrow> error + jsval) \<Rightarrow> string \<Rightarrow> error + jsval" where
  "forwarded_response JSON_parse result = (if result \<noteq> [] then JSON_parse result else Inr (JObj []))"

definition json_headers :: "(string \<times> string) list" where
  "json_headers = [(''Content-Type'', ''application/json'')]"

definition functionHandler :: "flow_env \<Rightarrow> string option \<Rightarrow> proxy_result \<times> event_entry list" where
  "functionHandler env event_body =
     (let failed = (\<lparr>statusCode = 500, headers = json_headers,
                      result_body = flow_JSON_stringify env
                        (JObj [(''message'', JStr ''Failed to invoke plan generation flow'')])\<rparr>, []);
          no_body = (\<lparr>statusCode = 400, headers = json_headers,
                       result_body = flow_JSON_stringify env
                         (JObj [(''message'', JStr ''No request body provided'')])\<rparr>, [])
      in
      if flow_paramErrors env \<noteq> [] then
        (\<lparr>statusCode = 500, headers = json_headers,
          result_body = flow_JSON_stringify env
            (JObj [(''message'', JStr ''Missing configuration parameters'')])\<rparr>, [])
      else
        (case event_body of
           None \<Rightarrow> no_body
         | Some text \<Rightarrow>
             if text = [] then no_body
             else
               (case flow_JSON_parse env text of
                  Inl e \<Rightarrow> failed
                | Inr body \<Rightarrow>
                    if body = JUndefined \<or> body = JNull then failed
                    else
                      (let connectionId = prop_of body ''connectionId''
                       in case flow_invoke env of
                            Inl e \<Rightarrow> failed
                          | Inr responseStream \<Rightarrow>
                              (let result = drain (flow_JSON_stringify env) responseStream
                               in case forwarded_response (flow_JSON_parse env) result of
                                    Inl e \<Rightarrow> failed
                                  | Inr response \<Rightarrow>
                                      (case flow_put_events env of
                                         Some e \<Rightarrow> failed
                                       | None \<Rightarrow>
                                           (\<lparr>statusCode = 200, headers = json_headers,
                                             result_body = flow_JSON_stringify env
                                               (JObj [(''success'', JBool True),
                                                      (''connectionId'', connectionId),
                                                      (''message'', JStr ''Flow invoked successfully'')])\<rparr>,
                                            [\<lparr>EventBusName = flow_eventBusName env,
                                              Source = ''promptEventHandler'',
                                              DetailType = ''bedrockResponded'',
                                              Detail = flow_JSON_stringify env
                                                (JObj [(''connectionId'', connectionId),
                                                       (''response'', response)])\<rparr>])))))))"

text \<open>
  The document of the last chunk of a stream that has a truthy document, if any: what
  the specification calls the last populated chunk.
\<close>

definition last_populated_document :: "jsval list option \<Rightarrow> jsval option" where
  "last_populated_document responseStream =
     (case responseStream of
        None \<Rightarrow> None
      | Some chunks \<Rightarrow>
          (case filter truthy (map chunk_document chunks) of
             [] \<Rightarrow> None
           | d # ds \<Rightarrow> Some (last (d # ds))))"

section \<open>Table invariant and the last write per key\<close>




section \<open>Basic facts about objects and tables\<close>






section \<open>Creating a profile\<close>



section \<open>Creating a profile twice\<close>





section \<open>Updating a profile\<close>







section \<open>Quiz responses\<close>











section \<open>The latest plan\<close>

lemma sorted_le_last:
  fixes xs :: "'a::linorder list"
  shows "sorted xs \<Longrightarrow> x \<in> set xs \<Longrightarrow> x \<le> last xs"
  by (induction xs) auto

lemma query_latest:
  "query t u False (Some 1)
     = (case sort_key (\<lambda>kv. snd (fst kv)) (filter (\<lambda>kv. fst (fst kv) = u) t) of
          [] \<Rightarrow> []
        | x # xs \<Rightarrow> [snd (last (x # xs))])"
proof -
  define part where "part = sort_key (\<lambda>kv. snd (fst kv)) (filter (\<lambda>kv. fst (fst kv) = u) t)"
  have "take 1 (rev (map snd part)) = (case part of [] \<Rightarrow> [] | x # xs \<Rightarrow> [snd (last (x # xs))])"
  proof (cases part rule: rev_cases)
    case Nil
    then show ?thesis by simp
  next
    case (snoc ys y)
    then show ?thesis by (cases ys) simp_all
  qed
  then show ?thesis
    by (simp add: query_def part_def One_nat_def)
qed

lemma latest_plan_greatest:
  assumes "distinct (map fst t)"
    and "query t u False (Some 1) = item # rest"
  shows "rest = [] \<and> (\<exists>p. map_of t (u, p) = Some item
            \<and> (\<forall>p' item'. map_of t (u, p') = Some item' \<longrightarrow> p' \<le> p))"
proof -
  define part where "part = sort_key (\<lambda>kv. snd (fst kv)) (filter (\<lambda>kv. fst (fst kv) = u) t)"
  have ne: "part \<noteq> []" and item: "item = snd (last part)" and rest: "rest = []"
    using assms(2) unfolding query_latest part_def [symmetric]
    by (auto split: list.splits)
  have srt: "sorted (map (\<lambda>kv. snd (fst kv)) part)"
    unfolding part_def by (rule sorted_sort_key)
  have mem: "set part = {kv \<in> set t. fst (fst kv) = u}"
    by (simp add: part_def)
  have lst: "last part \<in> set part" using ne by simp
  then have in_t: "last part \<in> set t" and in_u: "fst (fst (last part)) = u"
    using mem by auto
  define p where "p = snd (fst (last part))"
  have key: "fst (last part) = (u, p)"
    using in_u by (simp add: p_def prod_eq_iff)
  have "((u, p), item) \<in> set t"
    using in_t key item by (metis prod.collapse)
  then have found: "map_of t (u, p) = Some item"
    using assms(1) by simp
  have greatest: "\<forall>p' item'. map_of t (u, p') = Some item' \<longrightarrow> p' \<le> p"
  proof (intro allI impI)
    fix p' item' assume "map_of t (u, p') = Some item'"
    then have "((u, p'), item') \<in> set t" by (rule map_of_SomeD)
    then have "((u, p'), item') \<in> set part" using mem by simp
    then have "p' \<in> set (map (\<lambda>kv. snd (fst kv)) part)" by force
    with srt have "p' \<le> last (map (\<lambda>kv. snd (fst kv)) part)"
      by (rule sorted_le_last)
    then show "p' \<le> p"
      using ne by (simp add: last_map p_def)
  qed
  show ?thesis using rest found greatest by blast
qed

lemma getExercisePlan_greatest_planId:
  assumes "distinct (map fst (exercise_plans s))"
    and "\<not> truthy planId"
  shows "(\<exists>item p. getExercisePlan u planId s = Inr (JObj item)
            \<and> map_of (exercise_plans s) (u, p) = Some item
            \<and> (\<forall>p' item'. map_of (exercise_plans s) (u, p') = Some item' \<longrightarrow> p' \<le> p))
         \<or> (getExercisePlan u planId s = Inr JNull
            \<and> (\<forall>p'. map_of (exercise_plans s) (u, p') = None))"
proof (cases "query (exercise_plans s) u False (Some 1)")
  case Nil
  then have "sort_key (\<lambda>kv. snd (fst kv)) (filter (\<lambda>kv. fst (fst kv) = u) (exercise_plans s)) = []"
    unfolding query_latest by (simp split: list.splits)
  then have "length (filter (\<lambda>kv. fst (fst kv) = u) (exercise_plans s)) = 0"
    using length_sort [of "\<lambda>kv. snd (fst kv)" "filter (\<lambda>kv. fst (fst kv) = u) (exercise_plans s)"]
    by simp
  then have "filter (\<lambda>kv. fst (fst kv) = u) (exercise_plans s) = []"
    by simp
  then have none: "\<forall>kv \<in> set (exercise_plans s). fst (fst kv) \<noteq> u"
    by (simp add: filter_empty_conv)
  have "\<forall>p'. map_of (exercise_plans s) (u, p') = None"
  proof
    fix p'
    have "(u, p') \<notin> fst ` set (exercise_plans s)"
      using none by auto
    then show "map_of (exercise_plans s) (u, p') = None"
      by (simp add: map_of_eq_None_iff)
  qed
  moreover have "getExercisePlan u planId s = Inr JNull"
    using Nil assms(2) by (simp add: getExercisePlan_def js_or_def)
  ultimately show ?thesis by blast
next
  case (Cons item rest)
  from latest_plan_greatest [OF assms(1) Cons]
  obtain p where "map_of (exercise_plans s) (u, p) = Some item"
    and "\<forall>p' item'. map_of (exercise_plans s) (u, p') = Some item' \<longrightarrow> p' \<le> p"
    by blast
  moreover have "getExercisePlan u planId s = Inr (JObj item)"
    using Cons assms(2) by (simp add: getExercisePlan_def js_or_def)
  ultimately show ?thesis by blast
qed

text \<open>
  Claim C4. Without a \<^verbatim>\<open>planId\<close> the resolvers return the plan whose \<^verbatim>\<open>planId\<close> is the
  greatest of the partition (\<open>getExercisePlan_greatest_planId\<close>), which the comments in
  the resolvers call the latest plan. Plan identifiers come from \<^verbatim>\<open>uuidv4()\<close> and carry
  no order of creation: here a plan is saved, then a second one with a later timestamp
  and a smaller identifier, and both resolvers return the first, older plan.
\<close>

theorem getExercisePlan_returns_older_plan:
  "let first_plan = [(''planId'', JStr ''b7e1c2d4-5a6f-4b8c-9d0e-1f2a3b4c5d6e''), (''userId'', JStr ''u1''),
                     (''title'', JStr ''Week 1''), (''exercises'', JArr []),
                     (''createdAt'', JStr ''2024-01-01T00:00:00.000Z''),
                     (''updatedAt'', JStr ''2024-01-01T00:00:00.000Z'')];
       second_plan = [(''planId'', JStr ''3c9d8e7f-6a5b-4c3d-8e2f-1a0b9c8d7e6f''), (''userId'', JStr ''u1''),
                      (''title'', JStr ''Week 2''), (''exercises'', JArr []),
                      (''createdAt'', JStr ''2024-02-01T00:00:00.000Z''),
                      (''updatedAt'', JStr ''2024-02-01T00:00:00.000Z'')];
       s1 = empty_store\<lparr>exercise_plans := [((''u1'', ''b7e1c2d4-5a6f-4b8c-9d0e-1f2a3b4c5d6e''), first_plan)]\<rparr>;
       s2 = empty_store\<lparr>exercise_plans :=
              [((''u1'', ''b7e1c2d4-5a6f-4b8c-9d0e-1f2a3b4c5d6e''), first_plan),
               ((''u1'', ''3c9d8e7f-6a5b-4c3d-8e2f-1a0b9c8d7e6f''), second_plan)]\<rparr>;
       d1 = empty_store\<lparr>diet_plans := [((''u1'', ''b7e1c2d4-5a6f-4b8c-9d0e-1f2a3b4c5d6e''), first_plan)]\<rparr>;
       d2 = empty_store\<lparr>diet_plans :=
              [((''u1'', ''b7e1c2d4-5a6f-4b8c-9d0e-1f2a3b4c5d6e''), first_plan),
               ((''u1'', ''3c9d8e7f-6a5b-4c3d-8e2f-1a0b9c8d7e6f''), second_plan)]\<rparr>
   in saveExercisePlan first_plan empty_store = Inr s1
    \<and> saveExercisePlan second_plan s1 = Inr s2
    \<and> getExercisePlan ''u1'' JUndefined s2 = Inr (JObj first_plan)
    \<and> saveDietPlan first_plan empty_store = Inr d1
    \<and> saveDietPlan second_plan d1 = Inr d2
    \<and> getDietPlan ''u1'' JUndefined d2 = Inr (JObj first_plan)
    \<and> field first_plan ''createdAt'' = JStr ''2024-01-01T00:00:00.000Z''
    \<and> field second_plan ''createdAt'' = JStr ''2024-02-01T00:00:00.000Z''"
  unfolding Let_def
  by (intro conjI;
      simp add: empty_store_def saveExercisePlan_def saveDietPlan_def put_item_def composite_key_def
        str_attr_def field_def getExercisePlan_def getDietPlan_def query_def js_or_def)

section \<open>Extraction of the plan from the reply\<close>

lemma set_nonempty_prefixes:
  "set (map (\<lambda>n. take n xs) [1..<Suc (length xs)]) = {p. p \<noteq> [] \<and> (\<exists>post. xs = p @ post)}"
proof (intro set_eqI iffI)
  fix p assume "p \<in> set (map (\<lambda>n. take n xs) [1..<Suc (length xs)])"
  then obtain n where n: "1 \<le> n" "n \<le> length xs" and p: "p = take n xs" by auto
  have "p \<noteq> []" using n p by auto
  moreover have "xs = p @ drop n xs" by (simp add: p)
  ultimately show "p \<in> {p. p \<noteq> [] \<and> (\<exists>post. xs = p @ post)}" by blast
next
  fix p assume "p \<in> {p. p \<noteq> [] \<and> (\<exists>post. xs = p @ post)}"
  then obtain post where ne: "p \<noteq> []" and xs: "xs = p @ post" by blast
  have "1 \<le> length p" using ne by (cases p) simp_all
  moreover have "length p \<le> length xs" by (simp add: xs)
  moreover have "take (length p) xs = p" by (simp add: xs)
  ultimately have "\<exists>n \<in> {1..<Suc (length xs)}. take n xs = p"
    by (intro bexI [of _ "length p"]) auto
  then show "p \<in> set (map (\<lambda>n. take n xs) [1..<Suc (length xs)])" by auto
qed

lemma set_candidates:
  "set (candidates response) = {sub. sub \<noteq> [] \<and> (\<exists>pre post. response = pre @ sub @ post)}"
proof (induction response)
  case Nil
  then show ?case by auto
next
  case (Cons c cs)
  have pre: "set (map (\<lambda>n. take n (c # cs)) [1..<Suc (Suc (length cs))])
      = {p. p \<noteq> [] \<and> (\<exists>post. c # cs = p @ post)}"
    using set_nonempty_prefixes [of "c # cs"] by simp
  have split: "{sub. sub \<noteq> [] \<and> (\<exists>pre post. c # cs = pre @ sub @ post)}
      = {p. p \<noteq> [] \<and> (\<exists>post. c # cs = p @ post)}
        \<union> {sub. sub \<noteq> [] \<and> (\<exists>pre post. cs = pre @ sub @ post)}"
  proof (intro set_eqI iffI)
    fix sub assume "sub \<in> {sub. sub \<noteq> [] \<and> (\<exists>pre post. c # cs = pre @ sub @ post)}"
    then obtain pre post where ne: "sub \<noteq> []" and eq: "c # cs = pre @ sub @ post" by blast
    show "sub \<in> {p. p \<noteq> [] \<and> (\<exists>post. c # cs = p @ post)}
        \<union> {sub. sub \<noteq> [] \<and> (\<exists>pre post. cs = pre @ sub @ post)}"
    proof (cases pre)
      case Nil
      then show ?thesis using ne eq by auto
    next
      case (Cons a pre')
      then have "cs = pre' @ sub @ post" using eq by simp
      then show ?thesis using ne by blast
    qed
  next
    fix sub assume "sub \<in> {p. p \<noteq> [] \<and> (\<exists>post. c # cs = p @ post)}
        \<union> {sub. sub \<noteq> [] \<and> (\<exists>pre post. cs = pre @ sub @ post)}"
    then consider post where "sub \<noteq> []" "c # cs = sub @ post"
      | pre post where "sub \<noteq> []" "cs = pre @ sub @ post" by blast
    then show "sub \<in> {sub. sub \<noteq> [] \<and> (\<exists>pre post. c # cs = pre @ sub @ post)}"
    proof cases
      case 1
      then have "c # cs = [] @ sub @ post" by simp
      then show ?thesis using 1(1) by blast
    next
      case 2
      then have "c # cs = (c # pre) @ sub @ post" by simp
      then show ?thesis using 2(1) by blast
    qed
  qed
  have "set (candidates (c # cs))
      = set (map (\<lambda>n. take n (c # cs)) [1..<Suc (Suc (length cs))]) \<union> set (candidates cs)"
    by (simp only: candidates.simps set_append)
  also have "\<dots> = {p. p \<noteq> [] \<and> (\<exists>post. c # cs = p @ post)}
        \<union> {sub. sub \<noteq> [] \<and> (\<exists>pre post. cs = pre @ sub @ post)}"
    by (simp only: pre Cons.IH)
  also have "\<dots> = {sub. sub \<noteq> [] \<and> (\<exists>pre post. c # cs = pre @ sub @ post)}"
    by (rule split [symmetric])
  finally show ?case .
qed

lemma find_map_comp:
  "List.find P (map f xs) = map_option f (List.find (\<lambda>x. P (f x)) xs)"
  by (induction xs) simp_all

lemma findValidJson_find:
  "findValidJson JSON_parse response
     = (case List.find (\<lambda>sub. is_json_object (JSON_parse sub)) (candidates response) of
          None \<Rightarrow> JNull
        | Some sub \<Rightarrow> (case JSON_parse sub of Inr json \<Rightarrow> json | Inl e \<Rightarrow> JNull))"
  by (simp add: findValidJson_def find_map_comp split: option.splits sum.splits)

text \<open>
  Claim C7. \<open>extractJsonFromResponse\<close> returns the parse of the first substring of the
  response, in the order of \<open>candidates\<close>, that parses as a JSON object, whatever
  properties the object has, and fails with the extraction error when no substring
  parses as one; the candidates are exactly the non-empty substrings of the response.
\<close>

theorem extractJsonFromResponse_first_object:
  "extractJsonFromResponse JSON_parse response
     = (case List.find (\<lambda>sub. is_json_object (JSON_parse sub)) (candidates response) of
          None \<Rightarrow> Inl (Error ''Error extracting JSON from response: No JSON found in response'')
        | Some sub \<Rightarrow> JSON_parse sub)
   \<and> set (candidates response)
     = {sub. sub \<noteq> [] \<and> (\<exists>pre post. response = pre @ sub @ post)}"
proof
  show "extractJsonFromResponse JSON_parse response
     = (case List.find (\<lambda>sub. is_json_object (JSON_parse sub)) (candidates response) of
          None \<Rightarrow> Inl (Error ''Error extracting JSON from response: No JSON found in response'')
        | Some sub \<Rightarrow> JSON_parse sub)"
  proof (cases "List.find (\<lambda>sub. is_json_object (JSON_parse sub)) (candidates response)")
    case None
    then show ?thesis
      by (simp add: extractJsonFromResponse_def findValidJson_find)
  next
    case (Some sub)
    then have "is_json_object (JSON_parse sub)"
      by (auto simp: find_Some_iff)
    then obtain kvs where "JSON_parse sub = Inr (JObj kvs)"
      by (auto simp: is_json_object_def split: sum.splits jsval.splits)
    then show ?thesis
      using Some by (simp add: extractJsonFromResponse_def findValidJson_find)
  qed
next
  show "set (candidates response)
     = {sub. sub \<noteq> [] \<and> (\<exists>pre post. response = pre @ sub @ post)}"
    by (rule set_candidates)
qed

theorem extractJsonFromResponse_first_object_witness:
  "extractJsonFromResponse
      (\<lambda>t. if t = ''{}'' then Inr (JObj []) else Inl (Error ''SyntaxError'')) ''ok {} {}''
     = Inr (JObj [])
   \<and> extractJsonFromResponse
      (\<lambda>t. if t = ''{}'' then Inr (JObj []) else Inl (Error ''SyntaxError'')) ''no plan today''
     = Inl (Error ''Error extracting JSON from response: No JSON found in response'')"
  using extractJsonFromResponse_first_object
    [of "\<lambda>t. if t = ''{}'' then Inr (JObj []) else Inl (Error ''SyntaxError'')" "''ok {} {}''"]
    extractJsonFromResponse_first_object
    [of "\<lambda>t. if t = ''{}'' then Inr (JObj []) else Inl (Error ''SyntaxError'')" "''no plan today''"]
  by (simp add: is_json_object_def upt_rec)

section \<open>Generating both plans\<close>

lemma saveExercisePlan_Inr:
  assumes "saveExercisePlan item s = Inr s1"
  shows "\<exists>k. composite_key ''planId'' item = Some k
           \<and> s1 = s\<lparr>exercise_plans := AList.update k item (exercise_plans s)\<rparr>"
  using assms
  by (auto simp: saveExercisePlan_def put_item_def split: option.splits sum.splits)

lemma store_differs:
  assumes "map_of (exercise_plans s) k \<noteq> Some item"
  shows "s\<lparr>exercise_plans := AList.update k item (exercise_plans s)\<rparr> \<noteq> s"
proof
  assume "s\<lparr>exercise_plans := AList.update k item (exercise_plans s)\<rparr> = s"
  then have "exercise_plans (s\<lparr>exercise_plans := AList.update k item (exercise_plans s)\<rparr>)
      = exercise_plans s" by simp
  then have "AList.update k item (exercise_plans s) = exercise_plans s" by simp
  then have "map_of (AList.update k item (exercise_plans s)) k = map_of (exercise_plans s) k"
    by simp
  then show False using assms by (simp add: update_conv')
qed

text \<open>
  Claim C6. Suppose the exercise half of a request succeeds on a store \<open>s\<close> (the call
  with plan type \<open>EXERCISE\<close> returns a result and the store \<open>s1\<close>) and the diet
  generation fails with \<open>e\<close>, be it the model invocation or the extraction. Then the
  request with plan type \<open>BOTH\<close> fails with \<open>e\<close> and leaves the store \<open>s1\<close>: the
  exercise plan is stored under its key, and \<open>s1\<close> differs from \<open>s\<close> unless that
  very item was already stored under that key.
\<close>

theorem generateUserPlans_no_rollback:
  assumes "generateUserPlans env (input\<lparr>input_planType := EXERCISE\<rparr>) s = (Inr result, s1)"
    and "collectUserData (input_userId input) s = Inr userData"
    and "generateDietPlan env userData (input_preferences input) = Inl e"
  shows "generateUserPlans env (input\<lparr>input_planType := BOTH\<rparr>) s = (Inl e, s1)
       \<and> (\<exists>item k. result = [(''exercisePlan'', JObj item)]
             \<and> composite_key ''planId'' item = Some k
             \<and> s1 = s\<lparr>exercise_plans := AList.update k item (exercise_plans s)\<rparr>
             \<and> map_of (exercise_plans s1) k = Some item
             \<and> (map_of (exercise_plans s) k \<noteq> Some item \<longrightarrow> s1 \<noteq> s))"
proof -
  obtain plan where plan: "generateExercisePlan env userData (input_preferences input) = Inr plan"
    using assms(1,2)
    by (cases "generateExercisePlan env userData (input_preferences input)")
       (simp_all add: generateUserPlans_def)
  define item where
    "item = AList.update ''updatedAt'' (JStr (gen_timestamp env))
             (AList.update ''createdAt'' (JStr (gen_timestamp env))
               (AList.update ''exercises'' (js_or (prop_of plan ''exercises'') (JArr []))
                  (spread plan [(''planId'', JStr (gen_exercise_uuid env)),
                                (''userId'', JStr (input_userId input))])))"
  have saved: "saveExercisePlan item s = Inr s1" and res: "result = [(''exercisePlan'', JObj item)]"
    using assms(1,2) plan
    by (cases "saveExercisePlan item s";
        simp add: generateUserPlans_def item_def [symmetric] Let_def)+
  obtain k where k: "composite_key ''planId'' item = Some k"
    and s1: "s1 = s\<lparr>exercise_plans := AList.update k item (exercise_plans s)\<rparr>"
    using saveExercisePlan_Inr [OF saved] by blast
  have both: "generateUserPlans env (input\<lparr>input_planType := BOTH\<rparr>) s = (Inl e, s1)"
    using assms(2,3) plan saved
    by (simp add: generateUserPlans_def item_def [symmetric] Let_def)
  have stored: "map_of (exercise_plans s1) k = Some item"
    by (simp add: s1 update_conv')
  have differs: "map_of (exercise_plans s) k \<noteq> Some item \<longrightarrow> s1 \<noteq> s"
    unfolding s1 using store_differs by blast
  show ?thesis
    using both res k s1 stored differs by blast
qed

theorem generateUserPlans_no_rollback_witness:
  "let env = \<lparr>gen_timestamp = ''2024-03-01T10:00:00.000Z'',
              gen_exercise_uuid = ''id-1'', gen_diet_uuid = ''id-2'',
              gen_exercise_reply = Inr \<lparr>response_content = Some [\<lparr>block_text = Some ''{}''\<rparr>]\<rparr>,
              gen_diet_reply = Inl (Error ''ThrottlingException''),
              gen_JSON_parse = (\<lambda>t. if t = ''{}'' then Inr (JObj []) else Inl (Error ''SyntaxError''))\<rparr>;
       input = \<lparr>input_userId = ''u1'', input_planType = BOTH, input_preferences = JUndefined\<rparr>;
       s = empty_store\<lparr>user_profiles := [(''u1'', [(''userId'', JStr ''u1'')])]\<rparr>;
       item = [(''planId'', JStr ''id-1''), (''userId'', JStr ''u1''), (''exercises'', JArr []),
               (''createdAt'', JStr ''2024-03-01T10:00:00.000Z''),
               (''updatedAt'', JStr ''2024-03-01T10:00:00.000Z'')]
   in generateUserPlans env input s
        = (Inl (Error ''ThrottlingException''),
           s\<lparr>exercise_plans := [((''u1'', ''id-1''), item)]\<rparr>)
    \<and> s\<lparr>exercise_plans := [((''u1'', ''id-1''), item)]\<rparr> \<noteq> s"
proof -
  let ?env = "\<lparr>gen_timestamp = ''2024-03-01T10:00:00.000Z'',
              gen_exercise_uuid = ''id-1'', gen_diet_uuid = ''id-2'',
              gen_exercise_reply = Inr \<lparr>response_content = Some [\<lparr>block_text = Some ''{}''\<rparr>]\<rparr>,
              gen_diet_reply = Inl (Error ''ThrottlingException''),
              gen_JSON_parse = (\<lambda>t. if t = ''{}'' then Inr (JObj []) else Inl (Error ''SyntaxError''))\<rparr>"
  let ?input = "\<lparr>input_userId = ''u1'', input_planType = BOTH, input_preferences = JUndefined\<rparr>"
  let ?s = "empty_store\<lparr>user_profiles := [(''u1'', [(''userId'', JStr ''u1'')])]\<rparr>"
  let ?item = "[(''planId'', JStr ''id-1''), (''userId'', JStr ''u1''), (''exercises'', JArr []),
               (''createdAt'', JStr ''2024-03-01T10:00:00.000Z''),
               (''updatedAt'', JStr ''2024-03-01T10:00:00.000Z'')]"
  let ?userData = "\<lparr>data_profile = [(''userId'', JStr ''u1'')], data_quizResponses = []\<rparr>"
  have found: "extractJsonFromResponse (gen_JSON_parse ?env) ''{}'' = Inr (JObj [])"
    by (simp add: extractJsonFromResponse_def findValidJson_def is_json_object_def)
  have collect: "collectUserData (input_userId ?input) ?s = Inr ?userData"
    by (simp add: collectUserData_def empty_store_def query_def)
  have gen: "generateExercisePlan ?env ?userData JUndefined = Inr (JObj [])"
    using found by (simp add: generateExercisePlan_def invokeBedrockModel_def)
  have save: "saveExercisePlan ?item ?s = Inr (?s\<lparr>exercise_plans := [((''u1'', ''id-1''), ?item)]\<rparr>)"
    by (simp add: saveExercisePlan_def put_item_def composite_key_def str_attr_def field_def
        empty_store_def)
  have exercise: "generateUserPlans ?env (?input\<lparr>input_planType := EXERCISE\<rparr>) ?s
      = (Inr [(''exercisePlan'', JObj ?item)], ?s\<lparr>exercise_plans := [((''u1'', ''id-1''), ?item)]\<rparr>)"
    using collect gen save
    by (simp add: generateUserPlans_def spread_def js_or_def field_def Let_def)
  have diet: "generateDietPlan ?env ?userData (input_preferences ?input)
      = Inl (Error ''ThrottlingException'')"
    by (simp add: generateDietPlan_def invokeBedrockModel_def)
  have fresh: "map_of (exercise_plans ?s) (''u1'', ''id-1'') \<noteq> Some ?item"
    by (simp add: empty_store_def)
  from generateUserPlans_no_rollback [OF exercise collect diet] fresh
  show ?thesis
    unfolding Let_def by (auto simp: composite_key_def str_attr_def field_def)
qed

section \<open>Draining the response stream\<close>

lemma fold_drain_chunk:
  "fold (drain_chunk f) chunks r
     = (case filter truthy (map chunk_document chunks) of
          [] \<Rightarrow> r
        | d # ds \<Rightarrow> f (last (d # ds)))"
proof (induction chunks arbitrary: r)
  case Nil
  then show ?case by simp
next
  case (Cons c chunks)
  have step: "fold (drain_chunk f) (c # chunks) r
      = (case filter truthy (map chunk_document chunks) of
           [] \<Rightarrow> drain_chunk f c r
         | d # ds \<Rightarrow> f (last (d # ds)))"
    by (simp only: fold_simps Cons.IH)
  show ?case
  proof (cases "truthy (chunk_document c)")
    case True
    then show ?thesis
      unfolding step by (simp add: drain_chunk_def split: list.splits)
  next
    case False
    then show ?thesis
      unfolding step by (simp add: drain_chunk_def split: list.splits)
  qed
qed

lemma drain_last_populated:
  "drain f responseStream
     = (case last_populated_document responseStream of None \<Rightarrow> '''' | Some d \<Rightarrow> f d)"
  by (simp add: drain_def last_populated_document_def fold_drain_chunk
      split: option.splits list.splits)

lemma drain_snoc:
  "drain f (Some (chunks @ [c]))
     = (if truthy (chunk_document c) then f (chunk_document c) else drain f (Some chunks))"
  by (simp add: drain_def drain_chunk_def)

lemma last_populated_in_stream:
  assumes "last_populated_document responseStream = Some d"
  shows "truthy d \<and> (\<exists>c \<in> set (case responseStream of None \<Rightarrow> [] | Some chunks \<Rightarrow> chunks).
            chunk_document c = d)"
proof -
  obtain chunks where s: "responseStream = Some chunks"
    using assms by (cases responseStream) (simp_all add: last_populated_document_def)
  define ds where "ds = filter truthy (map chunk_document chunks)"
  have ne: "ds \<noteq> []" and d: "d = last ds"
    using assms by (auto simp: s ds_def last_populated_document_def split: list.splits)
  have "d \<in> set ds" using ne d by simp
  then show ?thesis
    by (auto simp: ds_def s)
qed

text \<open>
  Claim C9. When the handler gets as far as publishing, the one event it publishes
  carries as \<^verbatim>\<open>response\<close> the document of the last chunk of the stream whose
  \<^verbatim>\<open>flowOutputEvent.content.document\<close> is truthy, and the empty object when there is no
  stream or no such chunk. The loop keeps the text of the last such document only: a
  chunk with a truthy document replaces the running result, any other chunk leaves it as
  it is. \<^verbatim>\<open>JSON.parse\<close> is assumed to invert \<^verbatim>\<open>JSON.stringify\<close> on the documents of the
  stream, whose texts are not empty.
\<close>

theorem functionHandler_forwards_last_document:
  assumes "flow_paramErrors env = []"
    and "request \<noteq> []"
    and "flow_JSON_parse env request = Inr body"
    and "body \<noteq> JUndefined" and "body \<noteq> JNull"
    and "flow_invoke env = Inr responseStream"
    and "flow_put_events env = None"
    and "\<forall>c \<in> set (case responseStream of None \<Rightarrow> [] | Some chunks \<Rightarrow> chunks).
           truthy (chunk_document c) \<longrightarrow>
             flow_JSON_stringify env (chunk_document c) \<noteq> []
             \<and> flow_JSON_parse env (flow_JSON_stringify env (chunk_document c))
                 = Inr (chunk_document c)"
  shows "snd (functionHandler env (Some request))
       = [\<lparr>EventBusName = flow_eventBusName env,
           Source = ''promptEventHandler'',
           DetailType = ''bedrockResponded'',
           Detail = flow_JSON_stringify env
             (JObj [(''connectionId'', prop_of body ''connectionId''),
                    (''response'',
                       (case last_populated_document responseStream of
                          None \<Rightarrow> JObj []
                        | Some d \<Rightarrow> d))])\<rparr>]
     \<and> drain (flow_JSON_stringify env) responseStream
       = (case last_populated_document responseStream of
            None \<Rightarrow> ''''
          | Some d \<Rightarrow> flow_JSON_stringify env d)
     \<and> (\<forall>chunks c. drain (flow_JSON_stringify env) (Some (chunks @ [c]))
           = (if truthy (chunk_document c) then flow_JSON_stringify env (chunk_document c)
              else drain (flow_JSON_stringify env) (Some chunks)))"
proof -
  have fwd: "forwarded_response (flow_JSON_parse env) (drain (flow_JSON_stringify env) responseStream)
      = Inr (case last_populated_document responseStream of None \<Rightarrow> JObj [] | Some d \<Rightarrow> d)"
  proof (cases "last_populated_document responseStream")
    case None
    then show ?thesis
      by (simp add: drain_last_populated forwarded_response_def)
  next
    case (Some d)
    from last_populated_in_stream [OF Some]
    obtain c where "c \<in> set (case responseStream of None \<Rightarrow> [] | Some chunks \<Rightarrow> chunks)"
      and "chunk_document c = d" and "truthy d" by blast
    then have "flow_JSON_stringify env d \<noteq> []"
      and "flow_JSON_parse env (flow_JSON_stringify env d) = Inr d"
      using assms(8) by auto
    then show ?thesis
      using Some by (simp add: drain_last_populated forwarded_response_def)
  qed
  have "snd (functionHandler env (Some request))
       = [\<lparr>EventBusName = flow_eventBusName env,
           Source = ''promptEventHandler'',
           DetailType = ''bedrockResponded'',
           Detail = flow_JSON_stringify env
             (JObj [(''connectionId'', prop_of body ''connectionId''),
                    (''response'',
                       (case last_populated_document responseStream of
                          None \<Rightarrow> JObj []
                        | Some d \<Rightarrow> d))])\<rparr>]"
    using assms(1-7) fwd by (simp add: functionHandler_def Let_def)
  then show ?thesis
    using drain_last_populated drain_snoc by blast
qed

theorem functionHandler_forwards_last_document_witness:
  "let js = (\<lambda>d. if d = JArr [JNum 1] then ''[1]'' else if d = JArr [JNum 2] then ''[2]'' else ''{}'');
       jp = (\<lambda>t. if t = ''[1]'' then Inr (JArr [JNum 1])
                 else if t = ''[2]'' then Inr (JArr [JNum 2])
                 else if t = ''{}'' then Inr (JObj []) else Inl (Error ''SyntaxError''));
       chunks = [JObj [(''flowOutputEvent'', JObj [(''content'', JObj [(''document'', JArr [JNum 1])])])],
                 JObj [(''flowTraceEvent'', JObj [])],
                 JObj [(''flowOutputEvent'', JObj [(''content'', JObj [(''document'', JArr [JNum 2])])])],
                 JObj [(''flowCompletionEvent'', JObj [(''completionReason'', JStr ''SUCCESS'')])]];
       env = \<lparr>flow_paramErrors = [], flow_eventBusName = JStr ''bus'',
              flow_invoke = Inr (Some chunks), flow_put_events = None,
              flow_JSON_stringify = js, flow_JSON_parse = jp\<rparr>
   in last_populated_document (Some chunks) = Some (JArr [JNum 2])
    \<and> drain js (Some chunks) = ''[2]''
    \<and> snd (functionHandler env (Some ''{}''))
        = [\<lparr>EventBusName = JStr ''bus'', Source = ''promptEventHandler'',
            DetailType = ''bedrockResponded'',
            Detail = js (JObj [(''connectionId'', JUndefined), (''response'', JArr [JNum 2])])\<rparr>]"
  using functionHandler_forwards_last_document
    [where request = "''{}''" and body = "JObj []"
       and responseStream = "Some
                [JObj [(''flowOutputEvent'', JObj [(''content'', JObj [(''document'', JArr [JNum 1])])])],
                 JObj [(''flowTraceEvent'', JObj [])],
                 JObj [(''flowOutputEvent'', JObj [(''content'', JObj [(''document'', JArr [JNum 2])])])],
                 JObj [(''flowCompletionEvent'', JObj [(''completionReason'', JStr ''SUCCESS'')])]]"
       and env = "\<lparr>flow_paramErrors = [], flow_eventBusName = JStr ''bus'',
              flow_invoke = Inr (Some
                [JObj [(''flowOutputEvent'', JObj [(''content'', JObj [(''document'', JArr [JNum 1])])])],
                 JObj [(''flowTraceEvent'', JObj [])],
                 JObj [(''flowOutputEvent'', JObj [(''content'', JObj [(''document'', JArr [JNum 2])])])],
                 JObj [(''flowCompletionEvent'', JObj [(''completionReason'', JStr ''SUCCESS'')])]]),
              flow_put_events = None,
              flow_JSON_stringify =
                (\<lambda>d. if d = JArr [JNum 1] then ''[1]'' else if d = JArr [JNum 2] then ''[2]'' else ''{}''),
              flow_JSON_parse =
                (\<lambda>t. if t = ''[1]'' then Inr (JArr [JNum 1])
                 else if t = ''[2]'' then Inr (JArr [JNum 2])
                 else if t = ''{}'' then Inr (JObj []) else Inl (Error ''SyntaxError''))\<rparr>"]
  unfolding Let_def
  by (simp add: last_populated_document_def chunk_document_def opt_prop_def field_def)

section \<open>The event relay: what is persisted\<close>








lemma processExercisePlan_absent:
  "\<not> truthy (prop_of response ''exercisePlan'') \<Longrightarrow>
   processExercisePlan ts uuid response conn s = (Inr (), s)"
  by (simp add: processExercisePlan_def)

lemma processDietPlan_absent:
  "\<not> truthy (prop_of response ''dietPlan'') \<Longrightarrow>
   processDietPlan ts uuid response conn s = (Inr (), s)"
  by (simp add: processDietPlan_def)

lemma processExercisePlan_failed:
  "fst (processExercisePlan ts uuid response conn s) = Inl e \<Longrightarrow>
   snd (processExercisePlan ts uuid response conn s) = s"
  by (auto simp: processExercisePlan_def split: if_splits sum.splits)

lemma processDietPlan_failed:
  "fst (processDietPlan ts uuid response conn s) = Inl e \<Longrightarrow>
   snd (processDietPlan ts uuid response conn s) = s"
  by (auto simp: processDietPlan_def split: if_splits sum.splits)








end
